theory Spec2Isabelle
  imports Complex_Main "HOL-Library.Multiset" "HOL-Library.Word"
    "HOL-Library.Signed_Division"
begin

unbundle bit_operations_syntax

section \<open>Data model\<close>

subsection \<open>The protocol package\<close>

text \<open>
  Modelled from the spec: the package \<open>protocol\<close> (types \<open>Task\<close>, \<open>TaskStatus\<close>,
  \<open>TaskPriority\<close>, \<open>NodeInfo\<close>, \<open>SystemInfo\<close>, \<open>Capability\<close>, \<open>NodeLoadInfo\<close>, \<open>TaskProgress\<close>,
  \<open>TaskResult\<close>) is imported by the scheduler but its declarations are not part of the
  sources. The records below hold the fields the scheduler reads and writes, with the
  statuses of the data model of the specification. Integer fields are unbounded
  integers, durations and instants are integers (nanoseconds), \<open>float64\<close> fields are
  real numbers (no NaN, no infinities, no rounding).
\<close>

datatype TaskStatus =
    TaskStatusPending
  | TaskStatusAssigned
  | TaskStatusRunning
  | TaskStatusCompleted
  | TaskStatusFailed
  | TaskStatusCancelled
  | TaskStatusTimedOut

record Task =
  ID :: string
  Priority :: int
  Timeout :: int
  AssignedNodeID :: string
  Status :: TaskStatus
  StartedAt :: "int option"
  CompletedAt :: "int option"

record Capability =
  Name :: string

record SystemInfo =
  CPUCores :: int
  MemoryMB :: int
  DiskFreeMB :: int

record NodeLoadInfo =
  CPUPercent :: real
  MemoryPercent :: real
  ActiveTasks :: int
  QueuedTasks :: int

record NodeInfo =
  ID :: string
  Capabilities :: "Capability list"
  SystemInfo :: SystemInfo
  Status :: string

record TaskProgress =
  TaskID :: string

record TaskResult =
  TaskID :: string
  Success :: bool
  Error :: string

subsection \<open>task.go\<close>

text \<open>
  \<open>ScheduleMode\<close> is a string type with two named constants; every other string is an
  unknown mode.
\<close>

definition DirectMode :: string where
  "DirectMode = ''direct''"

definition AIMode :: string where
  "AIMode = ''ai''"

record ResourceRequirements =
  MinCPUCores :: int
  MinMemoryMB :: int
  MinDiskFreeMB :: int
  MaxCPUPercent :: real
  MaxMemoryPercent :: real
  MaxActiveTasks :: int

record ScheduleHints =
  Description :: string
  PreferLowLatency :: bool
  PreferHighResources :: bool
  Affinity :: string
  AntiAffinity :: "string list"
  CustomContext :: "(string \<times> string) list"

text \<open>
  \<open>Task\<close> is a pointer in the source: the model keeps the address of the task in the
  store of task objects (\<open>None\<close> is the nil pointer). \<open>PreferredTags\<close> is a Go map; the
  model keeps its entries as a list of key/value pairs (keys distinct), since the code
  only counts and iterates them.
\<close>

record ScheduleRequest =
  Task :: "nat option"
  Mode :: string
  TargetNodeID :: string
  RequiredCapabilities :: "string list"
  RequiredSkills :: "string list"
  RequiredFeatures :: "string list"
  PreferredTags :: "(string \<times> string) list"
  ResourceRequirements :: "ResourceRequirements option"
  Hints :: "ScheduleHints option"
  RequestedAt :: int

text \<open>
  Strings built by \<open>fmt.Sprintf\<close> are kept as the sequence of their pieces: the literal
  text of the format and one piece for each verb with its argument. The empty Go string
  is the empty sequence; every format used by the scheduler starts with literal text.
\<close>

datatype fmt_piece =
    Lit string
  | Verb_q string
  | Verb_d int
  | Verb_f nat real

type_synonym fmt_string = "fmt_piece list"

record NodeScore =
  NodeID :: string
  TotalScore :: real
  CapabilityScore :: real
  SkillScore :: real
  ResourceScore :: real
  LoadScore :: real
  TagScore :: real
  AffinityScore :: real
  Eligible :: bool
  RejectReason :: fmt_string

record ScheduleDecision =
  RequestID :: string
  Mode :: string
  SelectedNodeID :: string
  Reason :: fmt_string
  Scores :: "NodeScore list"
  CandidateCount :: nat
  EligibleCount :: nat
  DecidedAt :: int
  Latency :: int

record SkillInfo =
  ID :: string
  Name :: string
  Version :: string
  Capabilities :: "string list"

record GolemProfile =
  NodeInfo :: NodeInfo
  Load :: NodeLoadInfo
  InstalledSkills :: "SkillInfo list"
  SupportedFeatures :: "string list"
  Tags :: "string \<rightharpoonup> string"
  HealthScore :: real
  LastUpdated :: int

section \<open>selector.go: the constraint checker\<close>

text \<open>
  The loops of \<open>check\<close> build a set of the names the node has and return at the first
  required name that is not in it.
\<close>

definition first_missing :: "string list \<Rightarrow> string list \<Rightarrow> string option" where
  "first_missing required have = find (\<lambda>r. r \<notin> set have) required"

definition capSet :: "GolemProfile \<Rightarrow> string list" where
  "capSet profile = map Capability.Name (NodeInfo.Capabilities (NodeInfo profile))"

definition skillSet :: "GolemProfile \<Rightarrow> string list" where
  "skillSet profile =
     concat (map (\<lambda>sk. [SkillInfo.ID sk, SkillInfo.Name sk]) (InstalledSkills profile))"

definition check_resources :: "ResourceRequirements \<Rightarrow> GolemProfile \<Rightarrow> fmt_string" where
  "check_resources rr profile =
     (let info = SystemInfo (NodeInfo profile); load = Load profile in
      if MinCPUCores rr > 0 \<and> CPUCores info < MinCPUCores rr then
        [Lit ''insufficient CPU cores: have '', Verb_d (CPUCores info), Lit '', need '',
         Verb_d (MinCPUCores rr)]
      else if MinMemoryMB rr > 0 \<and> MemoryMB info < MinMemoryMB rr then
        [Lit ''insufficient memory: have '', Verb_d (MemoryMB info), Lit ''MB, need '',
         Verb_d (MinMemoryMB rr), Lit ''MB'']
      else if MinDiskFreeMB rr > 0 \<and> DiskFreeMB info < MinDiskFreeMB rr then
        [Lit ''insufficient disk: have '', Verb_d (DiskFreeMB info), Lit ''MB, need '',
         Verb_d (MinDiskFreeMB rr), Lit ''MB'']
      else if MaxCPUPercent rr > 0 \<and> CPUPercent load > MaxCPUPercent rr then
        [Lit ''CPU usage too high: '', Verb_f 1 (CPUPercent load), Lit ''% > '',
         Verb_f 1 (MaxCPUPercent rr), Lit ''%'']
      else if MaxMemoryPercent rr > 0 \<and> MemoryPercent load > MaxMemoryPercent rr then
        [Lit ''memory usage too high: '', Verb_f 1 (MemoryPercent load), Lit ''% > '',
         Verb_f 1 (MaxMemoryPercent rr), Lit ''%'']
      else if MaxActiveTasks rr > 0 \<and> ActiveTasks load > MaxActiveTasks rr then
        [Lit ''too many active tasks: '', Verb_d (ActiveTasks load), Lit '' > '',
         Verb_d (MaxActiveTasks rr)]
      else [])"

definition check :: "ScheduleRequest \<Rightarrow> GolemProfile \<Rightarrow> fmt_string" where
  "check req profile =
     (if NodeInfo.Status (NodeInfo profile) \<noteq> ''online'' then
        [Lit ''node status is '', Verb_q (NodeInfo.Status (NodeInfo profile)),
         Lit '', expected online'']
      else
        case (if length (RequiredCapabilities req) > 0
              then first_missing (RequiredCapabilities req) (capSet profile) else None) of
          Some rc \<Rightarrow> [Lit ''missing required capability '', Verb_q rc]
        | None \<Rightarrow>
        (case (if length (RequiredSkills req) > 0
               then first_missing (RequiredSkills req) (skillSet profile) else None) of
          Some rs \<Rightarrow> [Lit ''missing required skill '', Verb_q rs]
        | None \<Rightarrow>
        (case (if length (RequiredFeatures req) > 0
               then first_missing (RequiredFeatures req) (SupportedFeatures profile)
               else None) of
          Some rf \<Rightarrow> [Lit ''missing required feature '', Verb_q rf]
        | None \<Rightarrow>
        (case ResourceRequirements req of
          None \<Rightarrow> []
        | Some rr \<Rightarrow> check_resources rr profile))))"


subsection \<open>The five constraint groups, as the specification words them\<close>

definition status_ok :: "GolemProfile \<Rightarrow> bool" where
  "status_ok profile = (NodeInfo.Status (NodeInfo profile) = ''online'')"

definition caps_ok :: "ScheduleRequest \<Rightarrow> GolemProfile \<Rightarrow> bool" where
  "caps_ok req profile =
     (\<forall>rc\<in>set (RequiredCapabilities req).
        \<exists>c\<in>set (NodeInfo.Capabilities (NodeInfo profile)). Capability.Name c = rc)"

definition skills_ok :: "ScheduleRequest \<Rightarrow> GolemProfile \<Rightarrow> bool" where
  "skills_ok req profile =
     (\<forall>rs\<in>set (RequiredSkills req).
        \<exists>sk\<in>set (InstalledSkills profile). SkillInfo.ID sk = rs \<or> SkillInfo.Name sk = rs)"

definition features_ok :: "ScheduleRequest \<Rightarrow> GolemProfile \<Rightarrow> bool" where
  "features_ok req profile =
     (\<forall>rf\<in>set (RequiredFeatures req). rf \<in> set (SupportedFeatures profile))"

text \<open>
  A field of \<open>ResourceRequirements\<close> constrains the node when it is non-zero (the
  reading of the specification, \<open>positive_only = False\<close>) or when it is strictly
  positive (the guards \<open>rr.X > 0\<close> of the code, \<open>positive_only = True\<close>).
\<close>

definition constrains_int :: "bool \<Rightarrow> int \<Rightarrow> bool" where
  "constrains_int positive_only v = (if positive_only then v > 0 else v \<noteq> 0)"

definition constrains_real :: "bool \<Rightarrow> real \<Rightarrow> bool" where
  "constrains_real positive_only v = (if positive_only then v > 0 else v \<noteq> 0)"

definition resources_ok :: "bool \<Rightarrow> ScheduleRequest \<Rightarrow> GolemProfile \<Rightarrow> bool" where
  "resources_ok positive_only req profile =
     (case ResourceRequirements req of
        None \<Rightarrow> True
      | Some rr \<Rightarrow>
          (let info = SystemInfo (NodeInfo profile); load = Load profile in
           (constrains_int positive_only (MinCPUCores rr) \<longrightarrow>
              MinCPUCores rr \<le> CPUCores info) \<and>
           (constrains_int positive_only (MinMemoryMB rr) \<longrightarrow>
              MinMemoryMB rr \<le> MemoryMB info) \<and>
           (constrains_int positive_only (MinDiskFreeMB rr) \<longrightarrow>
              MinDiskFreeMB rr \<le> DiskFreeMB info) \<and>
           (constrains_real positive_only (MaxCPUPercent rr) \<longrightarrow>
              CPUPercent load \<le> MaxCPUPercent rr) \<and>
           (constrains_real positive_only (MaxMemoryPercent rr) \<longrightarrow>
              MemoryPercent load \<le> MaxMemoryPercent rr) \<and>
           (constrains_int positive_only (MaxActiveTasks rr) \<longrightarrow>
              ActiveTasks load \<le> MaxActiveTasks rr)))"

text \<open>The first required name, in the order of the request, that the node lacks.\<close>

definition first_lacking :: "string list \<Rightarrow> string list \<Rightarrow> string" where
  "first_lacking required have = hd (filter (\<lambda>r. r \<notin> set have) required)"

definition first_failing_reason :: "ScheduleRequest \<Rightarrow> GolemProfile \<Rightarrow> fmt_string" where
  "first_failing_reason req profile =
     (if \<not> status_ok profile then
        [Lit ''node status is '', Verb_q (NodeInfo.Status (NodeInfo profile)),
         Lit '', expected online'']
      else if \<not> caps_ok req profile then
        [Lit ''missing required capability '',
         Verb_q (first_lacking (RequiredCapabilities req) (capSet profile))]
      else if \<not> skills_ok req profile then
        [Lit ''missing required skill '',
         Verb_q (first_lacking (RequiredSkills req) (skillSet profile))]
      else if \<not> features_ok req profile then
        [Lit ''missing required feature '',
         Verb_q (first_lacking (RequiredFeatures req) (SupportedFeatures profile))]
      else (case ResourceRequirements req of
              None \<Rightarrow> []
            | Some rr \<Rightarrow> check_resources rr profile))"

subsection \<open>Example inputs\<close>

definition no_requirements :: ScheduleRequest where
  "no_requirements =
     \<lparr>Task = None, ScheduleRequest.Mode = AIMode, TargetNodeID = [],
      RequiredCapabilities = [], RequiredSkills = [], RequiredFeatures = [],
      PreferredTags = [], ResourceRequirements = None, Hints = None, RequestedAt = 0\<rparr>"

definition idle_node :: "string \<Rightarrow> string \<Rightarrow> GolemProfile" where
  "idle_node nid st =
     \<lparr>NodeInfo = \<lparr>NodeInfo.ID = nid, NodeInfo.Capabilities = [\<lparr>Capability.Name = ''exec''\<rparr>],
                   SystemInfo = \<lparr>CPUCores = 4, MemoryMB = 8192, DiskFreeMB = 20480\<rparr>,
                   NodeInfo.Status = st\<rparr>,
      Load = \<lparr>CPUPercent = 10, MemoryPercent = 20, ActiveTasks = 0, QueuedTasks = 0\<rparr>,
      InstalledSkills = [], SupportedFeatures = [], Tags = Map.empty, HealthScore = 1,
      LastUpdated = 0\<rparr>"

definition negative_task_limit :: ResourceRequirements where
  "negative_task_limit =
     \<lparr>MinCPUCores = 0, MinMemoryMB = 0, MinDiskFreeMB = 0, MaxCPUPercent = 0,
      MaxMemoryPercent = 0, MaxActiveTasks = - 1\<rparr>"

section \<open>Properties of the constraint checker\<close>

lemma first_missing_None:
  "first_missing required have = None \<longleftrightarrow> set required \<subseteq> set have"
  by (auto simp: first_missing_def find_None_iff)

lemma first_missing_Some:
  "first_missing required have = Some r \<Longrightarrow> r = first_lacking required have"
  unfolding first_missing_def first_lacking_def
  by (induction required) (auto split: if_splits)

lemma caps_ok_iff: "caps_ok req p \<longleftrightarrow> set (RequiredCapabilities req) \<subseteq> set (capSet p)"
  by (auto simp: caps_ok_def capSet_def)

lemma skills_ok_iff: "skills_ok req p \<longleftrightarrow> set (RequiredSkills req) \<subseteq> set (skillSet p)"
  by (auto simp: skills_ok_def skillSet_def)

lemma features_ok_iff:
  "features_ok req p \<longleftrightarrow> set (RequiredFeatures req) \<subseteq> set (SupportedFeatures p)"
  by (auto simp: features_ok_def)

lemma guarded_first_missing:
  "(if length required > 0 then first_missing required have else None) =
     first_missing required have"
  "(if required \<noteq> [] then first_missing required have else None) =
     first_missing required have"
  "(if required = [] then None else first_missing required have) =
     first_missing required have"
  by (cases required; simp add: first_missing_def)+

lemma check_resources_empty:
  "ResourceRequirements req = Some rr \<Longrightarrow>
     check_resources rr p = [] \<longleftrightarrow> resources_ok True req p"
  by (auto simp: check_resources_def resources_ok_def constrains_int_def
      constrains_real_def Let_def)

lemma check_is_first_failing_reason: "check req p = first_failing_reason req p"
proof (cases "status_ok p")
  case False
  then show ?thesis by (simp add: check_def first_failing_reason_def status_ok_def)
next
  case st: True
  show ?thesis
  proof (cases "first_missing (RequiredCapabilities req) (capSet p)")
    case (Some rc)
    then have "\<not> caps_ok req p"
      using first_missing_None [of "RequiredCapabilities req" "capSet p"]
      by (simp add: caps_ok_iff)
    with st Some show ?thesis
      using first_missing_Some [OF Some]
      by (simp add: check_def first_failing_reason_def status_ok_def guarded_first_missing)
  next
    case c: None
    then have cok: "caps_ok req p" by (simp add: caps_ok_iff first_missing_None)
    show ?thesis
    proof (cases "first_missing (RequiredSkills req) (skillSet p)")
      case (Some rs)
      then have "\<not> skills_ok req p"
        using first_missing_None [of "RequiredSkills req" "skillSet p"]
        by (simp add: skills_ok_iff)
      with st c cok Some show ?thesis
        using first_missing_Some [OF Some]
        by (simp add: check_def first_failing_reason_def status_ok_def guarded_first_missing)
    next
      case s: None
      then have sok: "skills_ok req p" by (simp add: skills_ok_iff first_missing_None)
      show ?thesis
      proof (cases "first_missing (RequiredFeatures req) (SupportedFeatures p)")
        case (Some rf)
        then have "\<not> features_ok req p"
          using first_missing_None [of "RequiredFeatures req" "SupportedFeatures p"]
          by (simp add: features_ok_iff)
        with st c cok s sok Some show ?thesis
          using first_missing_Some [OF Some]
          by (simp add: check_def first_failing_reason_def status_ok_def
              guarded_first_missing)
      next
        case f: None
        then have "features_ok req p" by (simp add: features_ok_iff first_missing_None)
        with st c cok s sok f show ?thesis
          by (simp add: check_def first_failing_reason_def status_ok_def
              guarded_first_missing)
      qed
    qed
  qed
qed

lemma first_failing_reason_empty:
  "first_failing_reason req p = [] \<longleftrightarrow>
     status_ok p \<and> caps_ok req p \<and> skills_ok req p \<and> features_ok req p \<and>
     resources_ok True req p"
proof (cases "ResourceRequirements req")
  case None
  then show ?thesis by (simp add: first_failing_reason_def resources_ok_def)
next
  case (Some rr)
  then show ?thesis
    using check_resources_empty [OF Some, of p] by (simp add: first_failing_reason_def)
qed

text \<open>
  C3, as the code has it. \<open>check\<close> is a function of the request and the profile alone.
  It returns the empty string exactly when the node is online, has every required
  capability (by capability name), every required skill (by the ID or the name of an
  installed skill), every required feature, and satisfies every strictly positive field
  of \<open>ResourceRequirements\<close>; otherwise it returns the reason of the first failing group
  in that order, so a profile that is not online always gets the status rejection.
\<close>

theorem check_first_failing_group:
  "check req p = first_failing_reason req p \<and>
   (check req p = [] \<longleftrightarrow>
      status_ok p \<and> caps_ok req p \<and> skills_ok req p \<and> features_ok req p \<and>
      resources_ok True req p) \<and>
   (\<not> status_ok p \<longrightarrow>
      check req p = [Lit ''node status is '', Verb_q (NodeInfo.Status (NodeInfo p)),
                     Lit '', expected online''])"
  using check_is_first_failing_reason [of req p] first_failing_reason_empty [of req p]
  by (simp add: first_failing_reason_def)

theorem check_first_failing_group_witness:
  "check (no_requirements\<lparr>RequiredCapabilities := [''gpu'']\<rparr>) (idle_node ''g1'' ''offline'') =
     [Lit ''node status is '', Verb_q ''offline'', Lit '', expected online''] \<and>
   \<not> caps_ok (no_requirements\<lparr>RequiredCapabilities := [''gpu'']\<rparr>) (idle_node ''g1'' ''offline'')"
proof -
  let ?req = "no_requirements\<lparr>RequiredCapabilities := [''gpu'']\<rparr>"
  let ?p = "idle_node ''g1'' ''offline''"
  have st: "NodeInfo.Status (NodeInfo ?p) = ''offline''"
    by (simp add: idle_node_def)
  have h: "\<not> status_ok ?p"
    by (simp add: status_ok_def st)
  have c: "\<not> caps_ok ?req ?p"
    by (simp add: caps_ok_def idle_node_def no_requirements_def)
  from check_first_failing_group [of ?req ?p] h
  have "check ?req ?p = [Lit ''node status is '', Verb_q (NodeInfo.Status (NodeInfo ?p)),
                         Lit '', expected online'']"
    by blast
  with st c show ?thesis by simp
qed

text \<open>
  C3, as the specification words it, fails: a negative field of \<open>ResourceRequirements\<close>
  is non-zero, yet the code skips it. With \<open>MaxActiveTasks = -1\<close> a node running no task
  exceeds the maximum and is accepted all the same.
\<close>

theorem check_skips_negative_fields:
  "check (no_requirements\<lparr>ResourceRequirements := Some negative_task_limit\<rparr>)
      (idle_node ''g1'' ''online'') = [] \<and>
   \<not> resources_ok False (no_requirements\<lparr>ResourceRequirements := Some negative_task_limit\<rparr>)
      (idle_node ''g1'' ''online'')"
  by (simp add: check_def check_resources_def resources_ok_def constrains_int_def
      constrains_real_def idle_node_def no_requirements_def negative_task_limit_def
      first_missing_def)


section \<open>The Go library: sort.Slice\<close>

text \<open>
  \<open>AISelector.Select\<close> orders the eligible nodes with \<open>sort.Slice\<close> of the Go standard
  library, which is not part of the repository. The library function is the
  pattern-defeating quicksort \<open>pdqsort_func\<close> (Go 1.19 and later); it is embedded here
  function by function, since which of several nodes with the same score comes first is
  decided by its swaps. Slices are lists, indices are Go's \<open>int\<close> (unbounded here),
  \<open>data.Less(i, j)\<close> is \<open>lt (item_at xs i) (item_at xs j)\<close> and \<open>data.Swap\<close> is \<open>Swap\<close>.
  Integer division is Go's truncating division \<open>sdiv\<close>. The pseudo-random generator of
  \<open>breakPatterns_func\<close> is the 64-bit xorshift with shifts 13, 7 and 17.
\<close>

definition item_at :: "'a list \<Rightarrow> int \<Rightarrow> 'a" where
  "item_at xs i = xs ! nat i"

definition Swap :: "'a list \<Rightarrow> int \<Rightarrow> int \<Rightarrow> 'a list" where
  "Swap xs i j = xs[nat i := xs ! nat j, nat j := xs ! nat i]"


function insertionSort_inner :: "('a \<Rightarrow> 'a \<Rightarrow> bool) \<Rightarrow> 'a list \<Rightarrow> int \<Rightarrow> int \<Rightarrow> 'a list" where
  "insertionSort_inner lt xs a j =
     (if j > a \<and> lt (item_at xs j) (item_at xs (j - 1))
      then insertionSort_inner lt (Swap xs j (j - 1)) a (j - 1)
      else xs)"
  by pat_completeness auto
termination
  by (relation "measure (\<lambda>(lt, xs, a, j). nat (j - a))") auto

declare insertionSort_inner.simps [simp del]

function insertionSort_outer :: "('a \<Rightarrow> 'a \<Rightarrow> bool) \<Rightarrow> 'a list \<Rightarrow> int \<Rightarrow> int \<Rightarrow> int \<Rightarrow> 'a list" where
  "insertionSort_outer lt xs a b i =
     (if i < b
      then insertionSort_outer lt (insertionSort_inner lt xs a i) a b (i + 1)
      else xs)"
  by pat_completeness auto
termination
  by (relation "measure (\<lambda>(lt, xs, a, b, i). nat (b - i))") auto

declare insertionSort_outer.simps [simp del]

definition insertionSort_func :: "('a \<Rightarrow> 'a \<Rightarrow> bool) \<Rightarrow> 'a list \<Rightarrow> int \<Rightarrow> int \<Rightarrow> 'a list" where
  "insertionSort_func lt xs a b = insertionSort_outer lt xs a b (a + 1)"

text \<open>
  \<open>siftDown_func\<close> is only called with a root index that is not negative; the guard
  \<open>rt < 0\<close> stands for the index panic of Go on a negative index.
\<close>

function siftDown_func :: "('a \<Rightarrow> 'a \<Rightarrow> bool) \<Rightarrow> 'a list \<Rightarrow> int \<Rightarrow> int \<Rightarrow> int \<Rightarrow> 'a list" where
  "siftDown_func lt xs rt hi first =
     (let child = 2 * rt + 1 in
      if child \<ge> hi \<or> rt < 0 then xs
      else
        let child = (if child + 1 < hi \<and> lt (item_at xs (first + child)) (item_at xs (first + child + 1))
                     then child + 1 else child) in
        if \<not> lt (item_at xs (first + rt)) (item_at xs (first + child)) then xs
        else siftDown_func lt (Swap xs (first + rt) (first + child)) child hi first)"
  by pat_completeness auto
termination
  by (relation "measure (\<lambda>(lt, xs, rt, hi, first). nat (hi - rt))") (auto simp: Let_def)

declare siftDown_func.simps [simp del]



fun heapSort_build :: "('a \<Rightarrow> 'a \<Rightarrow> bool) \<Rightarrow> 'a list \<Rightarrow> nat \<Rightarrow> int \<Rightarrow> int \<Rightarrow> 'a list" where
  "heapSort_build lt xs 0 hi first = siftDown_func lt xs 0 hi first"
| "heapSort_build lt xs (Suc i) hi first =
     heapSort_build lt (siftDown_func lt xs (int (Suc i)) hi first) i hi first"

fun heapSort_pop :: "('a \<Rightarrow> 'a \<Rightarrow> bool) \<Rightarrow> 'a list \<Rightarrow> nat \<Rightarrow> int \<Rightarrow> 'a list" where
  "heapSort_pop lt xs 0 first = xs"
| "heapSort_pop lt xs (Suc i) first =
     heapSort_pop lt (siftDown_func lt (Swap xs first (first + int i)) 0 (int i) first) i first"

definition heapSort_func :: "('a \<Rightarrow> 'a \<Rightarrow> bool) \<Rightarrow> 'a list \<Rightarrow> int \<Rightarrow> int \<Rightarrow> 'a list" where
  "heapSort_func lt xs a b =
     (let first = a; hi = b - a in
      heapSort_pop lt (heapSort_build lt xs (nat ((hi - 1) sdiv 2)) hi first) (nat hi) first)"

function partition_up :: "('a \<Rightarrow> 'a \<Rightarrow> bool) \<Rightarrow> 'a list \<Rightarrow> int \<Rightarrow> int \<Rightarrow> int \<Rightarrow> int" where
  "partition_up lt xs a i j =
     (if i \<le> j \<and> lt (item_at xs i) (item_at xs a) then partition_up lt xs a (i + 1) j else i)"
  by pat_completeness auto
termination
  by (relation "measure (\<lambda>(lt, xs, a, i, j). nat (j + 1 - i))") auto

declare partition_up.simps [simp del]

function partition_down :: "('a \<Rightarrow> 'a \<Rightarrow> bool) \<Rightarrow> 'a list \<Rightarrow> int \<Rightarrow> int \<Rightarrow> int \<Rightarrow> int" where
  "partition_down lt xs a i j =
     (if i \<le> j \<and> \<not> lt (item_at xs j) (item_at xs a) then partition_down lt xs a i (j - 1) else j)"
  by pat_completeness auto
termination
  by (relation "measure (\<lambda>(lt, xs, a, i, j). nat (j + 1 - i))") auto

declare partition_down.simps [simp del]

lemma partition_up_ge: "i \<le> partition_up lt xs a i j"
proof (induction lt xs a i j rule: partition_up.induct)
  case (1 lt xs a i j)
  show ?case
  proof (cases "i \<le> j \<and> lt (item_at xs i) (item_at xs a)")
    case True
    then have "partition_up lt xs a i j = partition_up lt xs a (i + 1) j"
      by (simp add: partition_up.simps [of lt xs a i j])
    with 1 True show ?thesis by fastforce
  next
    case False
    then show ?thesis by (auto simp: partition_up.simps [of lt xs a i j])
  qed
qed

lemma partition_down_le: "partition_down lt xs a i j \<le> j"
proof (induction lt xs a i j rule: partition_down.induct)
  case (1 lt xs a i j)
  show ?case
  proof (cases "i \<le> j \<and> \<not> lt (item_at xs j) (item_at xs a)")
    case True
    then have "partition_down lt xs a i j = partition_down lt xs a i (j - 1)"
      by (simp add: partition_down.simps [of lt xs a i j])
    with 1 True show ?thesis by fastforce
  next
    case False
    then show ?thesis by (auto simp: partition_down.simps [of lt xs a i j])
  qed
qed

lemma partition_down_ge: "min j (i - 1) \<le> partition_down lt xs a i j"
proof (induction lt xs a i j rule: partition_down.induct)
  case (1 lt xs a i j)
  show ?case
  proof (cases "i \<le> j \<and> \<not> lt (item_at xs j) (item_at xs a)")
    case True
    then have "partition_down lt xs a i j = partition_down lt xs a i (j - 1)"
      by (simp add: partition_down.simps [of lt xs a i j])
    with 1 True show ?thesis by fastforce
  next
    case False
    then show ?thesis by (auto simp: partition_down.simps [of lt xs a i j])
  qed
qed

function partition_loop ::
  "('a \<Rightarrow> 'a \<Rightarrow> bool) \<Rightarrow> 'a list \<Rightarrow> int \<Rightarrow> int \<Rightarrow> int \<Rightarrow> 'a list \<times> int" where
  "partition_loop lt xs a i j =
     (let i1 = partition_up lt xs a i j;
          j1 = partition_down lt xs a i1 j in
      if i1 > j1 then (xs, j1)
      else partition_loop lt (Swap xs i1 j1) a (i1 + 1) (j1 - 1))"
  by pat_completeness auto
termination
proof (relation "measure (\<lambda>(lt, xs, a, i, j). nat (j + 1 - i))", goal_cases)
  case 1
  then show ?case by simp
next
  case (2 lt xs a i j i1 j1)
  have le1: "i \<le> i1" unfolding 2(1) by (rule partition_up_ge)
  have le2: "j1 \<le> j" unfolding 2(2) by (rule partition_down_le)
  from le1 le2 2(3) show ?case by simp
qed

declare partition_loop.simps [simp del]

definition partition_func ::
  "('a \<Rightarrow> 'a \<Rightarrow> bool) \<Rightarrow> 'a list \<Rightarrow> int \<Rightarrow> int \<Rightarrow> int \<Rightarrow> 'a list \<times> int \<times> bool" where
  "partition_func lt xs a b pivot =
     (let xs0 = Swap xs a pivot;
          i = partition_up lt xs0 a (a + 1) (b - 1);
          j = partition_down lt xs0 a i (b - 1) in
      if i > j then (Swap xs0 j a, j, True)
      else
        (case partition_loop lt (Swap xs0 i j) a (i + 1) (j - 1) of
           (xs1, j1) \<Rightarrow> (Swap xs1 j1 a, j1, False)))"




lemma partition_loop_le: "snd (partition_loop lt xs a i j) \<le> j"
proof (induction lt xs a i j rule: partition_loop.induct)
  case (1 lt xs a i j)
  define i1 where "i1 = partition_up lt xs a i j"
  define j1 where "j1 = partition_down lt xs a i1 j"
  have le2: "j1 \<le> j" unfolding j1_def by (rule partition_down_le)
  show ?case
  proof (cases "i1 > j1")
    case True
    then show ?thesis
      using le2 by (simp add: partition_loop.simps [of lt xs a i j] i1_def [symmetric] j1_def [symmetric])
  next
    case False
    then have "snd (partition_loop lt (Swap xs i1 j1) a (i1 + 1) (j1 - 1)) \<le> j1 - 1"
      using 1 [OF i1_def j1_def] by simp
    with False le2 show ?thesis
      by (simp add: partition_loop.simps [of lt xs a i j] i1_def [symmetric] j1_def [symmetric])
  qed
qed

lemma partition_loop_ge: "min j (i - 1) \<le> snd (partition_loop lt xs a i j)"
proof (induction lt xs a i j rule: partition_loop.induct)
  case (1 lt xs a i j)
  define i1 where "i1 = partition_up lt xs a i j"
  define j1 where "j1 = partition_down lt xs a i1 j"
  have le1: "i \<le> i1" unfolding i1_def by (rule partition_up_ge)
  have ge2: "min j (i1 - 1) \<le> j1" unfolding j1_def by (rule partition_down_ge)
  show ?case
  proof (cases "i1 > j1")
    case True
    then show ?thesis
      using le1 ge2
      by (simp add: partition_loop.simps [of lt xs a i j] i1_def [symmetric] j1_def [symmetric])
  next
    case False
    then have "min (j1 - 1) (i1 + 1 - 1) \<le> snd (partition_loop lt (Swap xs i1 j1) a (i1 + 1) (j1 - 1))"
      using 1 [OF i1_def j1_def] by simp
    with False le1 ge2 show ?thesis
      by (simp add: partition_loop.simps [of lt xs a i j] i1_def [symmetric] j1_def [symmetric])
  qed
qed

lemma partition_func_bounds:
  assumes "a < b" "partition_func lt xs a b pivot = (ys, mid, already)"
  shows "a \<le> mid \<and> mid < b"
proof -
  define xs0 where "xs0 = Swap xs a pivot"
  define i where "i = partition_up lt xs0 a (a + 1) (b - 1)"
  define j where "j = partition_down lt xs0 a i (b - 1)"
  have i_ge: "a + 1 \<le> i" unfolding i_def by (rule partition_up_ge)
  have j_le: "j \<le> b - 1" unfolding j_def by (rule partition_down_le)
  have j_ge: "min (b - 1) (i - 1) \<le> j" unfolding j_def by (rule partition_down_ge)
  show ?thesis
  proof (cases "i > j")
    case True
    with assms(2) have "mid = j"
      by (simp add: partition_func_def Let_def xs0_def [symmetric] i_def [symmetric]
          j_def [symmetric])
    with i_ge j_le j_ge assms(1) show ?thesis by simp
  next
    case False
    obtain xs1 j1 where pl: "partition_loop lt (Swap xs0 i j) a (i + 1) (j - 1) = (xs1, j1)"
      by (cases "partition_loop lt (Swap xs0 i j) a (i + 1) (j - 1)")
    with False assms(2) have "mid = j1"
      by (simp add: partition_func_def Let_def xs0_def [symmetric] i_def [symmetric]
          j_def [symmetric])
    moreover have "j1 \<le> j - 1"
      using partition_loop_le [of lt "Swap xs0 i j" a "i + 1" "j - 1"] pl by simp
    moreover have "min (j - 1) (i + 1 - 1) \<le> j1"
      using partition_loop_ge [of "j - 1" "i + 1" lt "Swap xs0 i j" a] pl by simp
    ultimately show ?thesis using False i_ge j_le by simp
  qed
qed

function partitionEqual_up :: "('a \<Rightarrow> 'a \<Rightarrow> bool) \<Rightarrow> 'a list \<Rightarrow> int \<Rightarrow> int \<Rightarrow> int \<Rightarrow> int" where
  "partitionEqual_up lt xs a i j =
     (if i \<le> j \<and> \<not> lt (item_at xs a) (item_at xs i) then partitionEqual_up lt xs a (i + 1) j else i)"
  by pat_completeness auto
termination
  by (relation "measure (\<lambda>(lt, xs, a, i, j). nat (j + 1 - i))") auto

declare partitionEqual_up.simps [simp del]

function partitionEqual_down :: "('a \<Rightarrow> 'a \<Rightarrow> bool) \<Rightarrow> 'a list \<Rightarrow> int \<Rightarrow> int \<Rightarrow> int \<Rightarrow> int" where
  "partitionEqual_down lt xs a i j =
     (if i \<le> j \<and> lt (item_at xs a) (item_at xs j) then partitionEqual_down lt xs a i (j - 1) else j)"
  by pat_completeness auto
termination
  by (relation "measure (\<lambda>(lt, xs, a, i, j). nat (j + 1 - i))") auto

declare partitionEqual_down.simps [simp del]

lemma partitionEqual_up_ge: "i \<le> partitionEqual_up lt xs a i j"
proof (induction lt xs a i j rule: partitionEqual_up.induct)
  case (1 lt xs a i j)
  show ?case
  proof (cases "i \<le> j \<and> \<not> lt (item_at xs a) (item_at xs i)")
    case True
    then have "partitionEqual_up lt xs a i j = partitionEqual_up lt xs a (i + 1) j"
      by (simp add: partitionEqual_up.simps [of lt xs a i j])
    with 1 True show ?thesis by fastforce
  next
    case False
    then show ?thesis by (auto simp: partitionEqual_up.simps [of lt xs a i j])
  qed
qed

lemma partitionEqual_down_le: "partitionEqual_down lt xs a i j \<le> j"
proof (induction lt xs a i j rule: partitionEqual_down.induct)
  case (1 lt xs a i j)
  show ?case
  proof (cases "i \<le> j \<and> lt (item_at xs a) (item_at xs j)")
    case True
    then have "partitionEqual_down lt xs a i j = partitionEqual_down lt xs a i (j - 1)"
      by (simp add: partitionEqual_down.simps [of lt xs a i j])
    with 1 True show ?thesis by fastforce
  next
    case False
    then show ?thesis by (auto simp: partitionEqual_down.simps [of lt xs a i j])
  qed
qed

function partitionEqual_loop ::
  "('a \<Rightarrow> 'a \<Rightarrow> bool) \<Rightarrow> 'a list \<Rightarrow> int \<Rightarrow> int \<Rightarrow> int \<Rightarrow> 'a list \<times> int" where
  "partitionEqual_loop lt xs a i j =
     (let i1 = partitionEqual_up lt xs a i j;
          j1 = partitionEqual_down lt xs a i1 j in
      if i1 > j1 then (xs, i1)
      else partitionEqual_loop lt (Swap xs i1 j1) a (i1 + 1) (j1 - 1))"
  by pat_completeness auto
termination
proof (relation "measure (\<lambda>(lt, xs, a, i, j). nat (j + 1 - i))", goal_cases)
  case 1
  then show ?case by simp
next
  case (2 lt xs a i j i1 j1)
  have le1: "i \<le> i1" unfolding 2(1) by (rule partitionEqual_up_ge)
  have le2: "j1 \<le> j" unfolding 2(2) by (rule partitionEqual_down_le)
  from le1 le2 2(3) show ?case by simp
qed

declare partitionEqual_loop.simps [simp del]

definition partitionEqual_func ::
  "('a \<Rightarrow> 'a \<Rightarrow> bool) \<Rightarrow> 'a list \<Rightarrow> int \<Rightarrow> int \<Rightarrow> int \<Rightarrow> 'a list \<times> int" where
  "partitionEqual_func lt xs a b pivot =
     partitionEqual_loop lt (Swap xs a pivot) a (a + 1) (b - 1)"

lemma partitionEqual_loop_ge: "i \<le> snd (partitionEqual_loop lt xs a i j)"
proof (induction lt xs a i j rule: partitionEqual_loop.induct)
  case (1 lt xs a i j)
  define i1 where "i1 = partitionEqual_up lt xs a i j"
  define j1 where "j1 = partitionEqual_down lt xs a i1 j"
  have le1: "i \<le> i1" unfolding i1_def by (rule partitionEqual_up_ge)
  show ?case
  proof (cases "i1 > j1")
    case True
    then show ?thesis
      using le1
      by (simp add: partitionEqual_loop.simps [of lt xs a i j] i1_def [symmetric]
          j1_def [symmetric])
  next
    case False
    then have "i1 + 1 \<le> snd (partitionEqual_loop lt (Swap xs i1 j1) a (i1 + 1) (j1 - 1))"
      using 1 [OF i1_def j1_def] by simp
    with False le1 show ?thesis
      by (simp add: partitionEqual_loop.simps [of lt xs a i j] i1_def [symmetric]
          j1_def [symmetric])
  qed
qed

lemma partitionEqual_func_gt:
  "partitionEqual_func lt xs a b pivot = (ys, mid) \<Longrightarrow> a < mid"
  using partitionEqual_loop_ge [of "a + 1" lt "Swap xs a pivot" a "b - 1"]
  by (simp add: partitionEqual_func_def)


function partialInsertionSort_scan :: "('a \<Rightarrow> 'a \<Rightarrow> bool) \<Rightarrow> 'a list \<Rightarrow> int \<Rightarrow> int \<Rightarrow> int" where
  "partialInsertionSort_scan lt xs i b =
     (if i < b \<and> \<not> lt (item_at xs i) (item_at xs (i - 1))
      then partialInsertionSort_scan lt xs (i + 1) b else i)"
  by pat_completeness auto
termination
  by (relation "measure (\<lambda>(lt, xs, i, b). nat (b - i))") auto

declare partialInsertionSort_scan.simps [simp del]

function shift_left :: "('a \<Rightarrow> 'a \<Rightarrow> bool) \<Rightarrow> 'a list \<Rightarrow> int \<Rightarrow> 'a list" where
  "shift_left lt xs j =
     (if j \<ge> 1 then
        (if \<not> lt (item_at xs j) (item_at xs (j - 1)) then xs
         else shift_left lt (Swap xs j (j - 1)) (j - 1))
      else xs)"
  by pat_completeness auto
termination
  by (relation "measure (\<lambda>(lt, xs, j). nat j)") auto

declare shift_left.simps [simp del]

function shift_right :: "('a \<Rightarrow> 'a \<Rightarrow> bool) \<Rightarrow> 'a list \<Rightarrow> int \<Rightarrow> int \<Rightarrow> 'a list" where
  "shift_right lt xs j b =
     (if j < b then
        (if \<not> lt (item_at xs j) (item_at xs (j - 1)) then xs
         else shift_right lt (Swap xs j (j - 1)) (j + 1) b)
      else xs)"
  by pat_completeness auto
termination
  by (relation "measure (\<lambda>(lt, xs, j, b). nat (b - j))") auto

declare shift_right.simps [simp del]

fun partialInsertionSort_steps ::
  "('a \<Rightarrow> 'a \<Rightarrow> bool) \<Rightarrow> 'a list \<Rightarrow> int \<Rightarrow> int \<Rightarrow> int \<Rightarrow> nat \<Rightarrow> 'a list \<times> bool" where
  "partialInsertionSort_steps lt xs a b i 0 = (xs, False)"
| "partialInsertionSort_steps lt xs a b i (Suc n) =
     (let i1 = partialInsertionSort_scan lt xs i b in
      if i1 = b then (xs, True)
      else if b - a < 50 then (xs, False)
      else
        let xs1 = Swap xs i1 (i1 - 1);
            xs2 = (if i1 - a \<ge> 2 then shift_left lt xs1 (i1 - 1) else xs1);
            xs3 = (if b - i1 \<ge> 2 then shift_right lt xs2 (i1 + 1) b else xs2)
        in partialInsertionSort_steps lt xs3 a b i1 n)"

definition partialInsertionSort_func ::
  "('a \<Rightarrow> 'a \<Rightarrow> bool) \<Rightarrow> 'a list \<Rightarrow> int \<Rightarrow> int \<Rightarrow> 'a list \<times> bool" where
  "partialInsertionSort_func lt xs a b = partialInsertionSort_steps lt xs a b (a + 1) 5"

fun bits_Len :: "nat \<Rightarrow> nat" where
  "bits_Len n = (if n = 0 then 0 else Suc (bits_Len (n div 2)))"

declare bits_Len.simps [simp del]

datatype sortedHint = unknownHint | increasingHint | decreasingHint

definition order2_func ::
  "('a \<Rightarrow> 'a \<Rightarrow> bool) \<Rightarrow> 'a list \<Rightarrow> int \<Rightarrow> int \<Rightarrow> nat \<Rightarrow> int \<times> int \<times> nat" where
  "order2_func lt xs a b swaps =
     (if lt (item_at xs b) (item_at xs a) then (b, a, swaps + 1) else (a, b, swaps))"

definition median_func ::
  "('a \<Rightarrow> 'a \<Rightarrow> bool) \<Rightarrow> 'a list \<Rightarrow> int \<Rightarrow> int \<Rightarrow> int \<Rightarrow> nat \<Rightarrow> int \<times> nat" where
  "median_func lt xs a b c swaps =
     (case order2_func lt xs a b swaps of (a1, b1, s1) \<Rightarrow>
      case order2_func lt xs b1 c s1 of (b2, c2, s2) \<Rightarrow>
      case order2_func lt xs a1 b2 s2 of (a3, b3, s3) \<Rightarrow> (b3, s3))"

definition medianAdjacent_func ::
  "('a \<Rightarrow> 'a \<Rightarrow> bool) \<Rightarrow> 'a list \<Rightarrow> int \<Rightarrow> nat \<Rightarrow> int \<times> nat" where
  "medianAdjacent_func lt xs a swaps = median_func lt xs (a - 1) a (a + 1) swaps"

definition choosePivot_func ::
  "('a \<Rightarrow> 'a \<Rightarrow> bool) \<Rightarrow> 'a list \<Rightarrow> int \<Rightarrow> int \<Rightarrow> int \<times> sortedHint" where
  "choosePivot_func lt xs a b =
     (let l = b - a;
          i = a + l sdiv 4 * 1;
          j = a + l sdiv 4 * 2;
          k = a + l sdiv 4 * 3;
          (j1, swaps) =
            (if l \<ge> 8 then
               (if l \<ge> 50 then
                  (case medianAdjacent_func lt xs i 0 of (i1, s1) \<Rightarrow>
                   case medianAdjacent_func lt xs j s1 of (j1, s2) \<Rightarrow>
                   case medianAdjacent_func lt xs k s2 of (k1, s3) \<Rightarrow>
                     median_func lt xs i1 j1 k1 s3)
                else median_func lt xs i j k 0)
             else (j, 0))
      in if swaps = 0 then (j1, increasingHint)
         else if swaps = 12 then (j1, decreasingHint)
         else (j1, unknownHint))"

function reverseRange_loop :: "'a list \<Rightarrow> int \<Rightarrow> int \<Rightarrow> 'a list" where
  "reverseRange_loop xs i j =
     (if i < j then reverseRange_loop (Swap xs i j) (i + 1) (j - 1) else xs)"
  by pat_completeness auto
termination
  by (relation "measure (\<lambda>(xs, i, j). nat (j - i))") auto

declare reverseRange_loop.simps [simp del]

definition reverseRange_func :: "'a list \<Rightarrow> int \<Rightarrow> int \<Rightarrow> 'a list" where
  "reverseRange_func xs a b = reverseRange_loop xs a (b - 1)"

definition xorshift_Next :: "64 word \<Rightarrow> 64 word" where
  "xorshift_Next r =
     (let r1 = r XOR push_bit 13 r;
          r2 = r1 XOR drop_bit 7 r1;
          r3 = r2 XOR push_bit 17 r2
      in r3)"

definition nextPowerOfTwo :: "int \<Rightarrow> 64 word" where
  "nextPowerOfTwo len = push_bit (bits_Len (nat len)) 1"

fun breakPatterns_loop ::
  "'a list \<Rightarrow> int \<Rightarrow> int \<Rightarrow> int \<Rightarrow> 64 word \<Rightarrow> 64 word \<Rightarrow> int \<Rightarrow> nat \<Rightarrow> 'a list" where
  "breakPatterns_loop xs a len idx modulus random i 0 = xs"
| "breakPatterns_loop xs a len idx modulus random i (Suc n) =
     (let random1 = xorshift_Next random;
          other = uint (random1 AND (modulus - 1));
          other1 = (if other \<ge> len then other - len else other)
      in breakPatterns_loop (Swap xs (idx - 1 + i) (a + other1)) a len idx modulus
           random1 (i + 1) n)"

definition breakPatterns_func :: "'a list \<Rightarrow> int \<Rightarrow> int \<Rightarrow> 'a list" where
  "breakPatterns_func xs a b =
     (let len = b - a in
      if len \<ge> 8 then
        breakPatterns_loop xs a len (a + (len sdiv 4) * 2 - 1) (nextPowerOfTwo len)
          (word_of_int len) 0 3
      else xs)"

lemma partitionEqual_func_gt_sym:
  "(ys, mid) = partitionEqual_func lt xs a b pivot \<Longrightarrow> a < mid"
  using partitionEqual_func_gt [of lt xs a b pivot ys mid] by simp

lemma partition_func_bounds_sym:
  "(ys, mid, already) = partition_func lt xs a b pivot \<Longrightarrow> a < b \<Longrightarrow> a \<le> mid \<and> mid < b"
  using partition_func_bounds [of a b lt xs pivot ys mid already] by simp

function pdqsort_func ::
  "('a \<Rightarrow> 'a \<Rightarrow> bool) \<Rightarrow> 'a list \<Rightarrow> int \<Rightarrow> int \<Rightarrow> int \<Rightarrow> bool \<Rightarrow> bool \<Rightarrow> 'a list" where
  "pdqsort_func lt xs a b limit wasBalanced wasPartitioned =
     (if b - a \<le> 12 then insertionSort_func lt xs a b
      else if limit = 0 then heapSort_func lt xs a b
      else
        (case (if \<not> wasBalanced then (breakPatterns_func xs a b, limit - 1) else (xs, limit)) of
           (xs1, limit1) \<Rightarrow>
        (case choosePivot_func lt xs1 a b of
           (pivot, hint) \<Rightarrow>
        (case (if hint = decreasingHint
               then (reverseRange_func xs1 a b, (b - 1) - (pivot - a), increasingHint)
               else (xs1, pivot, hint)) of
           (xs2, pivot2, hint2) \<Rightarrow>
        (case (if wasBalanced \<and> wasPartitioned \<and> hint2 = increasingHint
               then partialInsertionSort_func lt xs2 a b else (xs2, False)) of
           (xs3, done3) \<Rightarrow>
        if done3 then xs3
        else if a > 0 \<and> \<not> lt (item_at xs3 (a - 1)) (item_at xs3 pivot2) then
          (case partitionEqual_func lt xs3 a b pivot2 of
             (xs4, mid) \<Rightarrow> pdqsort_func lt xs4 mid b limit1 wasBalanced wasPartitioned)
        else
          (case partition_func lt xs3 a b pivot2 of
             (xs4, mid, alreadyPartitioned) \<Rightarrow>
               if mid - a < b - mid then
                 pdqsort_func lt (pdqsort_func lt xs4 a mid limit1 True True) (mid + 1) b limit1
                   (mid - a \<ge> (b - a) sdiv 8) alreadyPartitioned
               else
                 pdqsort_func lt (pdqsort_func lt xs4 (mid + 1) b limit1 True True) a mid limit1
                   (b - mid \<ge> (b - a) sdiv 8) alreadyPartitioned))))))"
  by pat_completeness auto
termination
proof (relation "measure (\<lambda>(lt, xs, a, b, limit, wb, wp). nat (b - a))", goal_cases)
  case 1
  show ?case by simp
next
  case (2 lt xs a b limit wasBalanced wasPartitioned xs1 limit1 pivot hint xs2 r2 pivot2 hint2
      xs3 done3 xs4 mid)
  from 2 have "a < mid" by (auto dest: partitionEqual_func_gt_sym)
  with 2 show ?case by simp
next
  case (3 lt xs a b limit wasBalanced wasPartitioned xs1 limit1 pivot hint xs2 r2 pivot2 hint2
      xs3 done3 xs4 r4 mid alreadyPartitioned)
  from 3 have "(xs4, mid, alreadyPartitioned) = partition_func lt xs3 a b pivot2" by simp
  from partition_func_bounds_sym [OF this] 3 have "a \<le> mid \<and> mid < b" by simp
  with 3 show ?case by simp
next
  case (4 lt xs a b limit wasBalanced wasPartitioned xs1 limit1 pivot hint xs2 r2 pivot2 hint2
      xs3 done3 xs4 r4 mid alreadyPartitioned)
  from 4 have "(xs4, mid, alreadyPartitioned) = partition_func lt xs3 a b pivot2" by simp
  from partition_func_bounds_sym [OF this] 4 have "a \<le> mid \<and> mid < b" by simp
  with 4 show ?case by simp
next
  case (5 lt xs a b limit wasBalanced wasPartitioned xs1 limit1 pivot hint xs2 r2 pivot2 hint2
      xs3 done3 xs4 r4 mid alreadyPartitioned)
  from 5 have "(xs4, mid, alreadyPartitioned) = partition_func lt xs3 a b pivot2" by simp
  from partition_func_bounds_sym [OF this] 5 have "a \<le> mid \<and> mid < b" by simp
  with 5 show ?case by simp
next
  case (6 lt xs a b limit wasBalanced wasPartitioned xs1 limit1 pivot hint xs2 r2 pivot2 hint2
      xs3 done3 xs4 r4 mid alreadyPartitioned)
  from 6 have "(xs4, mid, alreadyPartitioned) = partition_func lt xs3 a b pivot2" by simp
  from partition_func_bounds_sym [OF this] 6 have "a \<le> mid \<and> mid < b" by simp
  with 6 show ?case by simp
qed

declare pdqsort_func.simps [simp del]

definition sort_Slice :: "('a \<Rightarrow> 'a \<Rightarrow> bool) \<Rightarrow> 'a list \<Rightarrow> 'a list" where
  "sort_Slice lt xs =
     pdqsort_func lt xs 0 (int (length xs)) (int (bits_Len (length xs))) True True"


section \<open>selector.go: the selectors\<close>

text \<open>
  Errors are values. The errors of the provider and of the dispatcher come from outside
  the scheduler and are kept as their messages.
\<close>

datatype error =
    ErrDirectEmptyTarget
  | ErrTargetNotFound string nat
  | ErrTargetRejected string fmt_string
  | ErrAINoCandidates
  | ErrNoEligible nat
  | ErrTaskNil
  | ErrListProfiles string
  | ErrNoNodes
  | ErrUnknownMode string
  | ErrDispatch string string string
  | ErrEnqueue string error
  | ErrQueuedForRetry error string

text \<open>
  A selector reads the clock when it starts and when it has decided; the two readings are
  the arguments \<open>start\<close> and \<open>fin\<close>.
\<close>

definition DirectSelector_Select ::
  "int \<Rightarrow> int \<Rightarrow> ScheduleRequest \<Rightarrow> GolemProfile list \<Rightarrow> error + ScheduleDecision" where
  "DirectSelector_Select start fin req candidates =
     (if TargetNodeID req = [] then Inl ErrDirectEmptyTarget
      else
        case find (\<lambda>p. NodeInfo.ID (NodeInfo p) = TargetNodeID req) candidates of
          None \<Rightarrow> Inl (ErrTargetNotFound (TargetNodeID req) (length candidates))
        | Some target \<Rightarrow>
            (let reason = check req target in
             if reason \<noteq> [] then Inl (ErrTargetRejected (TargetNodeID req) reason)
             else Inr \<lparr>RequestID = [], ScheduleDecision.Mode = DirectMode,
                       SelectedNodeID = NodeInfo.ID (NodeInfo target),
                       Reason = [Lit ''directly targeted node '', Verb_q (TargetNodeID req),
                                 Lit '' passed all constraints''],
                       Scores = [], CandidateCount = length candidates, EligibleCount = 1,
                       DecidedAt = fin, Latency = fin - start\<rparr>))"

record ScoringWeights =
  Capability :: real
  Skill :: real
  Resource :: real
  Load :: real
  Tag :: real
  Affinity :: real




















section \<open>Properties of the selectors\<close>

subsection \<open>Slices of one and two elements\<close>


lemma sort_Slice_one: "sort_Slice lt [x] = [x]"
  by (simp add: sort_Slice_def pdqsort_func.simps [of lt "[x]"] insertionSort_func_def
      insertionSort_outer.simps [of _ _ 0 1 1])


subsection \<open>The affinity score\<close>










end
